theory Spec2Isabelle
  imports Complex_Main "HOL-Library.Sublist"
begin

section \<open>Values and exceptions\<close>

text \<open>
  Python exceptions are values. Only the classes that the handlers of \<open>main.py\<close> tell
  apart are kept: the monitor's inner handler catches \<open>(ValueError, TypeError)\<close>, every other
  handler catches \<open>Exception\<close>. \<open>str(e)\<close> is the message.
\<close>

datatype exn_kind = ValueError | TypeError | AttributeError | OtherError

datatype exn = Exn (kind: exn_kind) (message: string)

text \<open>
  What \<open>db.reference(path).get()\<close> returns: a decoded JSON value. Python compares numbers by
  value (\<open>1 == 1.0\<close>, \<open>True == 1\<close>) and \<open>float(True)\<close> is \<open>1.0\<close>; no operation of this program
  tells an int, a float of the same value and a bool apart, so all three are \<open>JNum\<close>. A finite
  float is the real number it denotes; the store's JSON has no NaN and no infinity, and
  rounding is not modelled. A dict is a map from keys to values, so that equality
  of two \<open>JObj\<close> is Python's \<open>==\<close> on dicts: the same keys with equal values.
\<close>

datatype json =
    JNull
  | JNum real
  | JStr string
  | JList "json list"
  | JObj "string \<Rightarrow> json option"

record SensorData =
  humidity :: real
  temperature :: real
  soilMoisture :: real

record datetime =
  year :: nat
  month :: nat
  day :: nat
  hour :: nat
  minute :: nat
  second :: nat
  microsecond :: nat

text \<open>
  The result dict of \<open>predict_irrigation\<close>: either
  \<open>{"irrigation_class": c, "timestamp": t}\<close> or \<open>{"error": msg}\<close>.
\<close>

datatype prediction_result =
    Prediction int string
  | PredictionError string

section \<open>Collaborators\<close>

text \<open>
  The module-level handles (\<open>encoders\<close>, \<open>scaler\<close>, \<open>model\<close>, \<open>db\<close>), the wall clock and
  \<open>time.sleep\<close> are parameters. \<open>'w\<close> is the state of the world outside the process (the
  remote store, the clock); every call that touches it takes the world and returns the new one.
  A call that raises returns \<open>Inl\<close>. \<open>parse_float\<close> is \<open>float\<close> on a string, \<open>None\<close> where
  Python raises \<open>ValueError\<close>.
\<close>

record 'w env =
  le_district :: "string \<Rightarrow> exn + int"
  le_zone :: "string \<Rightarrow> exn + int"
  le_season :: "string \<Rightarrow> exn + int"
  scaler_transform :: "real list \<Rightarrow> exn + real list"
  model_predict :: "real list \<Rightarrow> exn + int"
  db_get :: "string \<Rightarrow> 'w \<Rightarrow> (exn + json) \<times> 'w"
  db_set :: "string \<Rightarrow> json \<Rightarrow> 'w \<Rightarrow> exn option \<times> 'w"
  datetime_now :: "'w \<Rightarrow> datetime \<times> 'w"
  time_sleep :: "nat \<Rightarrow> 'w \<Rightarrow> 'w"
  parse_float :: "string \<Rightarrow> real option"

section \<open>Dates\<close>

definition is_leap :: "nat \<Rightarrow> bool" where
  "is_leap y = (y mod 4 = 0 \<and> (y mod 100 \<noteq> 0 \<or> y mod 400 = 0))"

definition days_in_month :: "nat \<Rightarrow> nat \<Rightarrow> nat" where
  "days_in_month y m =
     (if m = 2 then (if is_leap y then 29 else 28)
      else if m = 4 \<or> m = 6 \<or> m = 9 \<or> m = 11 then 30 else 31)"

text \<open>\<open>now.timetuple().tm_yday\<close>: the day of the year, 1 for the first of January.\<close>

definition tm_yday :: "datetime \<Rightarrow> nat" where
  "tm_yday dt = sum_list (map (days_in_month (year dt)) [1..<month dt]) + day dt"

definition digit :: "nat \<Rightarrow> char" where
  "digit d = ''0123456789'' ! d"

function dec :: "nat \<Rightarrow> string" where
  "dec n = (if n < 10 then [digit n] else dec (n div 10) @ [digit (n mod 10)])"
  by pat_completeness auto
termination
  by (relation "measure id") auto

declare dec.simps [simp del]

text \<open>\<open>'%0kd' % n\<close>: decimal digits, filled with zeros on the left up to width \<open>k\<close>.\<close>

definition zero_pad :: "nat \<Rightarrow> nat \<Rightarrow> string" where
  "zero_pad k n = replicate (k - length (dec n)) (CHR ''0'') @ dec n"

text \<open>
  \<open>datetime.isoformat()\<close> of a naive datetime: \<open>YYYY-MM-DDTHH:MM:SS\<close>, followed by
  \<open>.ffffff\<close> when the microsecond is not zero.
\<close>

definition isoformat :: "datetime \<Rightarrow> string" where
  "isoformat dt =
     zero_pad 4 (year dt) @ ''-'' @ zero_pad 2 (month dt) @ ''-'' @ zero_pad 2 (day dt) @ ''T'' @
     zero_pad 2 (hour dt) @ '':'' @ zero_pad 2 (minute dt) @ '':'' @ zero_pad 2 (second dt) @
     (if microsecond dt = 0 then [] else ''.'' @ zero_pad 6 (microsecond dt))"

section \<open>The prediction pipeline\<close>

text \<open>The constant of \<open>full_input['rainfall_mm_prediction_next_1h']\<close>.\<close>

definition rainfall_mm_prediction_next_1h :: real where
  "rainfall_mm_prediction_next_1h = 0.5"

text \<open>\<open>int(a and b)\<close> on two comparisons.\<close>

definition heat_stress :: "SensorData \<Rightarrow> int" where
  "heat_stress data = (if temperature data > 35 \<and> humidity data < 50 then 1 else 0)"

definition drought_stress :: "SensorData \<Rightarrow> int" where
  "drought_stress data =
     (if soilMoisture data < 30 \<and> rainfall_mm_prediction_next_1h < 1 then 1 else 0)"

definition soil_temp_interaction :: "SensorData \<Rightarrow> real" where
  "soil_temp_interaction data = soilMoisture data * temperature data"

definition humidity_rain_interaction :: "SensorData \<Rightarrow> real" where
  "humidity_rain_interaction data = humidity data * rainfall_mm_prediction_next_1h"

text \<open>
  The row of \<open>np.array([[...]])\<close>: numpy turns the ints among the fourteen entries into floats.
\<close>

definition feature_vector :: "SensorData \<Rightarrow> datetime \<Rightarrow> int \<Rightarrow> int \<Rightarrow> int \<Rightarrow> real list" where
  "feature_vector data now district_enc zone_enc season_enc =
     [soilMoisture data,
      temperature data,
      humidity data,
      rainfall_mm_prediction_next_1h,
      real (hour now),
      real (tm_yday now),
      real (month now),
      of_int district_enc,
      of_int zone_enc,
      of_int season_enc,
      of_int (heat_stress data),
      of_int (drought_stress data),
      soil_temp_interaction data,
      humidity_rain_interaction data]"

text \<open>
  The body of the \<open>try\<close> of \<open>predict_irrigation\<close>, statement by statement, in two parts; the
  first call that raises ends the body with that exception. The two \<open>print\<close> calls are left
  out. \<open>classify\<close> is the part up to \<open>irrigation_class = int(model.predict(scaled_input)[0])\<close>.
\<close>

definition classify :: "'w env \<Rightarrow> SensorData \<Rightarrow> 'w \<Rightarrow> (exn + int) \<times> 'w" where
  "classify env data w =
     (case datetime_now env w of (now, w1) \<Rightarrow>
     (case le_district env ''Coimbatore'' of
        Inl e \<Rightarrow> (Inl e, w1)
      | Inr district_enc \<Rightarrow>
     (case le_zone env ''Western Zone'' of
        Inl e \<Rightarrow> (Inl e, w1)
      | Inr zone_enc \<Rightarrow>
     (case le_season env ''southwest_monsoon'' of
        Inl e \<Rightarrow> (Inl e, w1)
      | Inr season_enc \<Rightarrow>
     (case scaler_transform env (feature_vector data now district_enc zone_enc season_enc) of
        Inl e \<Rightarrow> (Inl e, w1)
      | Inr scaled_input \<Rightarrow>
     (case model_predict env scaled_input of
        Inl e \<Rightarrow> (Inl e, w1)
      | Inr irrigation_class \<Rightarrow> (Inr irrigation_class, w1)))))))"

text \<open>
  \<open>save_prediction\<close> is the rest: the timestamp, the two writes to the store and the
  \<open>return\<close> of the result.
\<close>

definition save_prediction :: "'w env \<Rightarrow> int \<Rightarrow> 'w \<Rightarrow> (exn + int \<times> string) \<times> 'w" where
  "save_prediction env irrigation_class w1 =
     (case datetime_now env w1 of (now2, w2) \<Rightarrow>
     (case db_set env ''sensorData/prediction_class'' (JNum (of_int irrigation_class)) w2 of
        (Some e, w3) \<Rightarrow> (Inl e, w3)
      | (None, w3) \<Rightarrow>
     (case db_set env ''sensorData/last_prediction_time'' (JStr (isoformat now2)) w3 of
        (Some e, w4) \<Rightarrow> (Inl e, w4)
      | (None, w4) \<Rightarrow> (Inr (irrigation_class, isoformat now2), w4))))"

definition predict_try :: "'w env \<Rightarrow> SensorData \<Rightarrow> 'w \<Rightarrow> (exn + int \<times> string) \<times> 'w" where
  "predict_try env data w =
     (case classify env data w of
        (Inl e, w1) \<Rightarrow> (Inl e, w1)
      | (Inr irrigation_class, w1) \<Rightarrow> save_prediction env irrigation_class w1)"

text \<open>\<open>try: ... except Exception as e: return {"error": str(e)}\<close>.\<close>

definition predict_irrigation :: "'w env \<Rightarrow> SensorData \<Rightarrow> 'w \<Rightarrow> prediction_result \<times> 'w" where
  "predict_irrigation env data w =
     (case predict_try env data w of
        (Inr (irrigation_class, timestamp), w') \<Rightarrow> (Prediction irrigation_class timestamp, w')
      | (Inl e, w') \<Rightarrow> (PredictionError (message e), w'))"

section \<open>Python operations on decoded JSON\<close>

text \<open>
  \<open>key in current\<close>: the keys of a dict, the elements of a list, the substrings of a string;
  \<open>TypeError\<close> on a number and on \<open>None\<close>.
\<close>

fun py_in :: "string \<Rightarrow> json \<Rightarrow> exn + bool" where
  "py_in k (JObj m) = Inr (k \<in> dom m)"
| "py_in k (JList xs) = Inr (JStr k \<in> set xs)"
| "py_in k (JStr s) = Inr (sublist k s)"
| "py_in k (JNum r) = Inl (Exn TypeError ''argument of type float is not iterable'')"
| "py_in k JNull = Inl (Exn TypeError ''argument of type NoneType is not iterable'')"

text \<open>\<open>all(field in current for field in fields)\<close>: stops at the first \<open>False\<close>.\<close>

fun all_in :: "string list \<Rightarrow> json \<Rightarrow> exn + bool" where
  "all_in [] current = Inr True"
| "all_in (f # fs) current =
     (case py_in f current of
        Inl e \<Rightarrow> Inl e
      | Inr b \<Rightarrow> if b then all_in fs current else Inr False)"

text \<open>\<open>[f for f in fields if f not in current]\<close>.\<close>

fun not_in :: "string list \<Rightarrow> json \<Rightarrow> exn + string list" where
  "not_in [] current = Inr []"
| "not_in (f # fs) current =
     (case py_in f current of
        Inl e \<Rightarrow> Inl e
      | Inr b \<Rightarrow>
          (case not_in fs current of
             Inl e \<Rightarrow> Inl e
           | Inr ms \<Rightarrow> Inr (if b then ms else f # ms)))"

text \<open>\<open>current.keys()\<close>: only a dict has the method.\<close>

fun py_keys :: "json \<Rightarrow> exn + string set" where
  "py_keys (JObj m) = Inr (dom m)"
| "py_keys v = Inl (Exn AttributeError ''object has no attribute keys'')"

text \<open>\<open>current.get(key, default)\<close>: only a dict has the method.\<close>

fun py_get :: "json \<Rightarrow> string \<Rightarrow> json \<Rightarrow> exn + json" where
  "py_get (JObj m) k d = Inr (case m k of None \<Rightarrow> d | Some v \<Rightarrow> v)"
| "py_get v k d = Inl (Exn AttributeError ''object has no attribute get'')"

text \<open>\<open>float(v)\<close>.\<close>

fun py_float :: "'w env \<Rightarrow> json \<Rightarrow> exn + real" where
  "py_float env (JNum r) = Inr r"
| "py_float env (JStr s) =
     (case parse_float env s of
        None \<Rightarrow> Inl (Exn ValueError ''could not convert string to float'')
      | Some r \<Rightarrow> Inr r)"
| "py_float env v = Inl (Exn TypeError ''float() argument must be a string or a real number'')"

text \<open>Truth value of an object, as \<open>if current_data:\<close> and \<open>not last_values\<close> take it.\<close>

fun py_truthy :: "json \<Rightarrow> bool" where
  "py_truthy JNull = False"
| "py_truthy (JNum r) = (r \<noteq> 0)"
| "py_truthy (JStr s) = (s \<noteq> [])"
| "py_truthy (JList xs) = (xs \<noteq> [])"
| "py_truthy (JObj m) = (m \<noteq> Map.empty)"

definition float_field :: "'w env \<Rightarrow> json \<Rightarrow> string \<Rightarrow> exn + real" where
  "float_field env current k =
     (case py_get current k (JNum 0) of
        Inl e \<Rightarrow> Inl e
      | Inr v \<Rightarrow> py_float env v)"

text \<open>
  \<open>SensorData(humidity=float(current.get("humidity", 0.0)), temperature=..., soilMoisture=...)\<close>,
  as both the trigger and the monitor build it; the arguments are evaluated in this order.
\<close>

definition read_SensorData :: "'w env \<Rightarrow> json \<Rightarrow> exn + SensorData" where
  "read_SensorData env current =
     (case float_field env current ''humidity'' of
        Inl e \<Rightarrow> Inl e
      | Inr h \<Rightarrow>
     (case float_field env current ''temperature'' of
        Inl e \<Rightarrow> Inl e
      | Inr t \<Rightarrow>
     (case float_field env current ''soilMoisture'' of
        Inl e \<Rightarrow> Inl e
      | Inr s \<Rightarrow> Inr \<lparr>humidity = h, temperature = t, soilMoisture = s\<rparr>)))"

section \<open>The on-demand trigger\<close>

text \<open>
  \<open>{"status": "success", "result": result, "input_data": current_data}\<close> or
  \<open>{"status": "error", "message": msg}\<close>.
\<close>

datatype trigger_response =
    TriggerSuccess prediction_result json
  | TriggerError string

definition trigger_prediction :: "'w env \<Rightarrow> 'w \<Rightarrow> trigger_response \<times> 'w" where
  "trigger_prediction env w =
     (case db_get env ''sensorData/raw'' w of
        (Inl e, w1) \<Rightarrow> (TriggerError (message e), w1)
      | (Inr current_data, w1) \<Rightarrow>
          if py_truthy current_data then
            (case read_SensorData env current_data of
               Inl e \<Rightarrow> (TriggerError (message e), w1)
             | Inr data \<Rightarrow>
                 (case predict_irrigation env data w1 of
                    (result, w2) \<Rightarrow> (TriggerSuccess result current_data, w2)))
          else (TriggerError ''No sensor data found'', w1))"

section \<open>The background monitor\<close>

record monitor_state =
  last_values :: "json option"
  consecutive_errors :: nat

definition max_errors :: nat where
  "max_errors = 5"

definition required_fields :: "string list" where
  "required_fields = [''humidity'', ''temperature'', ''soilMoisture'']"

text \<open>
  What the monitor prints: one constructor for each \<open>print\<close> call of the loop, the
  calls that follow one another without anything that can raise in between taken together.
\<close>

datatype event =
    CurrentSensorData json
  | DetectedChange "json option" json
  | PredictionResult prediction_result
  | DataValidationError exn json
  | MissingRequiredFields "string list"
  | AvailableFields "string set"
  | NoChangeDetected
  | NoSensorData
  | MonitoringError nat exn
  | StoppingMonitor nat

datatype control = Continue | Break

text \<open>
  The \<open>try\<close> body of one iteration. The first component is the exception that leaves the body,
  if any; the inner handler keeps \<open>ValueError\<close> and \<open>TypeError\<close> raised while the
  \<open>SensorData\<close> is built, every other exception goes on to the outer handler.
\<close>

definition monitor_try ::
  "'w env \<Rightarrow> monitor_state \<Rightarrow> 'w \<Rightarrow> exn option \<times> monitor_state \<times> 'w \<times> event list" where
  "monitor_try env st w =
     (case db_get env ''sensorData'' w of
        (Inl e, w1) \<Rightarrow> (Some e, st, w1, [])
      | (Inr current, w1) \<Rightarrow>
          if current \<noteq> JNull then
            if (case last_values st of None \<Rightarrow> True | Some lv \<Rightarrow> current \<noteq> lv \<or> \<not> py_truthy lv) then
              (case all_in required_fields current of
                 Inl e \<Rightarrow>
                   (Some e, st, w1, [CurrentSensorData current, DetectedChange (last_values st) current])
               | Inr all_present \<Rightarrow>
                   if all_present then
                     (case read_SensorData env current of
                        Inl e \<Rightarrow>
                          if kind e = ValueError \<or> kind e = TypeError then
                            (None, st, w1,
                             [CurrentSensorData current, DetectedChange (last_values st) current,
                              DataValidationError e current])
                          else
                            (Some e, st, w1,
                             [CurrentSensorData current, DetectedChange (last_values st) current])
                      | Inr data \<Rightarrow>
                          (case predict_irrigation env data w1 of
                             (result, w2) \<Rightarrow>
                               (None, st\<lparr>last_values := Some current, consecutive_errors := 0\<rparr>, w2,
                                [CurrentSensorData current, DetectedChange (last_values st) current,
                                 PredictionResult result])))
                   else
                     (case not_in required_fields current of
                        Inl e \<Rightarrow>
                          (Some e, st, w1,
                           [CurrentSensorData current, DetectedChange (last_values st) current])
                      | Inr missing_fields \<Rightarrow>
                          (case py_keys current of
                             Inl e \<Rightarrow>
                               (Some e, st, w1,
                                [CurrentSensorData current, DetectedChange (last_values st) current,
                                 MissingRequiredFields missing_fields])
                           | Inr ks \<Rightarrow>
                               (None, st, w1,
                                [CurrentSensorData current, DetectedChange (last_values st) current,
                                 MissingRequiredFields missing_fields, AvailableFields ks]))))
            else (None, st, w1, [CurrentSensorData current, NoChangeDetected])
          else (None, st, w1, [CurrentSensorData current, NoSensorData]))"

text \<open>
  One pass through the \<open>while True\<close> body: the \<open>try\<close>, the outer handler with its \<open>break\<close>,
  and \<open>time.sleep(5)\<close> when the loop goes on.
\<close>

definition monitor_iter ::
  "'w env \<Rightarrow> monitor_state \<Rightarrow> 'w \<Rightarrow> control \<times> monitor_state \<times> 'w \<times> event list" where
  "monitor_iter env st w =
     (case monitor_try env st w of
        (None, st1, w1, out) \<Rightarrow> (Continue, st1, time_sleep env 5 w1, out)
      | (Some e, st1, w1, out) \<Rightarrow>
          (let st2 = st1\<lparr>consecutive_errors := consecutive_errors st1 + 1\<rparr> in
           if consecutive_errors st2 \<ge> max_errors then
             (Break, st2, w1,
              out @ [MonitoringError (consecutive_errors st2) e, StoppingMonitor max_errors])
           else
             (Continue, st2, time_sleep env 5 w1,
              out @ [MonitoringError (consecutive_errors st2) e])))"

text \<open>
  The loop never returns unless it breaks, so it is run for a given number of iterations:
  \<open>Break\<close> says that the loop has ended within them, \<open>Continue\<close> that it is still polling.
\<close>

fun monitor_loop ::
  "'w env \<Rightarrow> nat \<Rightarrow> monitor_state \<Rightarrow> 'w \<Rightarrow> control \<times> monitor_state \<times> 'w \<times> event list" where
  "monitor_loop env 0 st w = (Continue, st, w, [])"
| "monitor_loop env (Suc n) st w =
     (case monitor_iter env st w of
        (Break, st1, w1, out) \<Rightarrow> (Break, st1, w1, out)
      | (Continue, st1, w1, out) \<Rightarrow>
          (case monitor_loop env n st1 w1 of
             (c, st2, w2, out2) \<Rightarrow> (c, st2, w2, out @ out2)))"

definition monitor_firebase_sensor_data ::
  "'w env \<Rightarrow> nat \<Rightarrow> 'w \<Rightarrow> control \<times> monitor_state \<times> 'w \<times> event list" where
  "monitor_firebase_sensor_data env n w =
     monitor_loop env n \<lparr>last_values = None, consecutive_errors = 0\<rparr> w"

section \<open>Concrete collaborators\<close>

text \<open>
  Collaborators on which the code can be run: the world is the list of the outcomes of the
  store reads still to come, the clock stands still, the encoders and the scaler succeed, and
  the outcome of every store write and of the classifier is chosen by the caller.
\<close>

type_synonym script = "(exn + json) list"

definition store_down :: exn where
  "store_down = Exn OtherError ''store unreachable''"

definition scripted_get :: "string \<Rightarrow> script \<Rightarrow> (exn + json) \<times> script" where
  "scripted_get path w = (case w of [] \<Rightarrow> (Inl store_down, []) | r # rs \<Rightarrow> (r, rs))"

definition clock0 :: datetime where
  "clock0 = \<lparr>year = 2024, month = 7, day = 15, hour = 9, minute = 30, second = 0, microsecond = 0\<rparr>"

definition scripted_env :: "exn option \<Rightarrow> exn + int \<Rightarrow> script env" where
  "scripted_env set_outcome class_outcome =
     \<lparr>le_district = (\<lambda>label. Inr 3),
      le_zone = (\<lambda>label. Inr 1),
      le_season = (\<lambda>label. Inr 2),
      scaler_transform = Inr,
      model_predict = (\<lambda>row. class_outcome),
      db_get = scripted_get,
      db_set = (\<lambda>path v w. (set_outcome, w)),
      datetime_now = (\<lambda>w. (clock0, w)),
      time_sleep = (\<lambda>secs w. w),
      parse_float = (\<lambda>s. None)\<rparr>"

definition snapshot_A :: json where
  "snapshot_A =
     JObj [''humidity'' \<mapsto> JNum 60, ''temperature'' \<mapsto> JNum 30, ''soilMoisture'' \<mapsto> JNum 45]"

definition snapshot_B :: json where
  "snapshot_B =
     JObj [''humidity'' \<mapsto> JNum 40, ''temperature'' \<mapsto> JNum 38, ''soilMoisture'' \<mapsto> JNum 20]"

definition snapshot_no_soil :: json where
  "snapshot_no_soil = JObj [''humidity'' \<mapsto> JNum 60, ''temperature'' \<mapsto> JNum 30]"

definition data_A :: SensorData where
  "data_A = \<lparr>humidity = 60, temperature = 30, soilMoisture = 45\<rparr>"

definition data_B :: SensorData where
  "data_B = \<lparr>humidity = 40, temperature = 38, soilMoisture = 20\<rparr>"

section \<open>Properties of the monitor's state\<close>

text \<open>
  A value that is a dict holding the three required fields: what \<open>last_values\<close> may hold
  once it is set.
\<close>

definition has_required_fields :: "json \<Rightarrow> bool" where
  "has_required_fields v = (case v of JObj m \<Rightarrow> set required_fields \<subseteq> dom m | _ \<Rightarrow> False)"

definition monitor_inv :: "monitor_state \<Rightarrow> bool" where
  "monitor_inv st = (case last_values st of None \<Rightarrow> True | Some v \<Rightarrow> has_required_fields v)"

text \<open>
  The pipeline runs in the monitor exactly where \<open>Prediction result:\<close> is printed, so the
  number of these events is the number of calls of \<open>predict_irrigation\<close>.
\<close>

fun is_prediction :: "event \<Rightarrow> bool" where
  "is_prediction (PredictionResult r) = True"
| "is_prediction ev = False"

definition pipeline_calls :: "event list \<Rightarrow> nat" where
  "pipeline_calls out = length (filter is_prediction out)"

text \<open>Four failed reads, a read that finds no node, one more failed read.\<close>

definition flaky_script :: script where
  "flaky_script =
     [Inl store_down, Inl store_down, Inl store_down, Inl store_down, Inr JNull, Inl store_down]"

text \<open>
  A reading that is processed, four failed reads, a read of the same reading, one more
  failed read.
\<close>

definition interrupted_script :: script where
  "interrupted_script =
     [Inr snapshot_A, Inl store_down, Inl store_down, Inl store_down, Inl store_down,
      Inr snapshot_A, Inl store_down]"

definition model_failure :: exn where
  "model_failure = Exn ValueError ''X has 14 features, but the model is expecting 15''"

section \<open>Auxiliary facts\<close>

lemma read_SensorData_dict: "read_SensorData env current = Inr data \<Longrightarrow> \<exists>m. current = JObj m"
  by (cases current) (simp_all add: read_SensorData_def float_field_def)

lemma all_in_dict: "all_in required_fields (JObj m) = Inr True \<longleftrightarrow> set required_fields \<subseteq> dom m"
  by (auto simp: required_fields_def split: if_splits)

lemma complete_truthy:
  assumes "all_in required_fields current = Inr True" "read_SensorData env current = Inr data"
  shows "py_truthy current" "current \<noteq> JNull" "has_required_fields current"
proof -
  from assms(2) obtain m where m: "current = JObj m" using read_SensorData_dict by blast
  with assms(1) have sub: "set required_fields \<subseteq> dom m" by (simp add: all_in_dict)
  then have "m ''humidity'' \<noteq> None" by (auto simp: required_fields_def)
  then have "m \<noteq> Map.empty" by auto
  with m show "py_truthy current" by simp
  from m show "current \<noteq> JNull" by simp
  from m sub show "has_required_fields current" by (simp add: has_required_fields_def)
qed

lemma monitor_iter_processed:
  assumes "db_get env ''sensorData'' w = (Inr current, w1)"
    and "last_values st \<noteq> Some current"
    and "all_in required_fields current = Inr True"
    and "read_SensorData env current = Inr data"
  shows "monitor_iter env st w =
          (Continue, st\<lparr>last_values := Some current, consecutive_errors := 0\<rparr>,
           time_sleep env 5 (snd (predict_irrigation env data w1)),
           [CurrentSensorData current, DetectedChange (last_values st) current,
            PredictionResult (fst (predict_irrigation env data w1))])"
  using assms complete_truthy(2)[OF assms(3,4)]
  by (cases "last_values st") (simp_all add: monitor_iter_def monitor_try_def split: prod.splits)

lemma monitor_iter_unchanged:
  assumes "db_get env ''sensorData'' w = (Inr current, w1)"
    and "last_values st = Some current"
    and "py_truthy current"
  shows "monitor_iter env st w =
          (Continue, st, time_sleep env 5 w1, [CurrentSensorData current, NoChangeDetected])"
proof -
  from assms(3) have "current \<noteq> JNull" by auto
  with assms show ?thesis by (simp add: monitor_iter_def monitor_try_def)
qed

lemma monitor_try_state:
  assumes "monitor_try env st w = (x, st', w', out)"
  shows "st' = st \<or> (x = None \<and> consecutive_errors st' = 0 \<and>
           (\<exists>v. last_values st' = Some v \<and> has_required_fields v))"
  using assms complete_truthy(3)
  by (fastforce simp: monitor_try_def split: prod.splits sum.splits if_splits option.splits)

lemma monitor_iter_state:
  assumes "monitor_iter env st w = (c, st', w', out)"
  shows "(c = Continue \<and> st' = st) \<or>
         (c = Continue \<and> consecutive_errors st' = 0 \<and>
            (\<exists>v. last_values st' = Some v \<and> has_required_fields v)) \<or>
         (st' = st\<lparr>consecutive_errors := consecutive_errors st + 1\<rparr> \<and>
            (c = Break \<longleftrightarrow> max_errors \<le> consecutive_errors st + 1))"
proof (cases "monitor_try env st w")
  case (fields x st1 w1 out1)
  from monitor_try_state[OF fields] have st1: "st1 = st \<or> (x = None \<and> consecutive_errors st1 = 0 \<and>
           (\<exists>v. last_values st1 = Some v \<and> has_required_fields v))" .
  show ?thesis
  proof (cases x)
    case None
    with fields assms have "c = Continue" "st' = st1" by (simp_all add: monitor_iter_def)
    with st1 show ?thesis by auto
  next
    case (Some e)
    with st1 have "st1 = st" by auto
    with Some fields assms show ?thesis
      by (auto simp: monitor_iter_def Let_def split: if_splits)
  qed
qed

lemma monitor_iter_inv:
  assumes "monitor_inv st" "monitor_iter env st w = (c, st', w', out)"
  shows "monitor_inv st'"
  using monitor_iter_state[OF assms(2)] assms(1)
  by (auto simp: monitor_inv_def)

lemma monitor_loop_inv:
  "monitor_inv st \<Longrightarrow> monitor_loop env n st w = (c, st', w', out) \<Longrightarrow> monitor_inv st'"
proof (induction n arbitrary: st w c st' w' out)
  case 0
  then show ?case by simp
next
  case (Suc n)
  obtain c1 st1 w1 out1 where it: "monitor_iter env st w = (c1, st1, w1, out1)"
    by (cases "monitor_iter env st w") auto
  have inv1: "monitor_inv st1" using monitor_iter_inv[OF Suc.prems(1) it] .
  show ?case
  proof (cases c1)
    case Break
    with it Suc.prems(2) have "st' = st1" by simp
    with inv1 show ?thesis by simp
  next
    case Continue
    obtain c2 st2 w2 out2 where lp: "monitor_loop env n st1 w1 = (c2, st2, w2, out2)"
      by (cases "monitor_loop env n st1 w1") auto
    with Continue it Suc.prems(2) have "st' = st2" by simp
    with Suc.IH[OF inv1 lp] show ?thesis by simp
  qed
qed

lemma classify_scripted [simp]: "classify (scripted_env s r) d w = (r, w)"
  by (cases r) (simp_all add: classify_def scripted_env_def)

lemma save_scripted_ok [simp]:
  "save_prediction (scripted_env None r) c w = (Inr (c, isoformat clock0), w)"
  by (simp add: save_prediction_def scripted_env_def)

lemma save_scripted_fail [simp]:
  "save_prediction (scripted_env (Some e) r) c w = (Inl e, w)"
  by (simp add: save_prediction_def scripted_env_def)

lemma predict_scripted_ok [simp]:
  "predict_irrigation (scripted_env None (Inr c)) d w = (Prediction c (isoformat clock0), w)"
  by (simp add: predict_irrigation_def predict_try_def)

lemma predict_scripted_model_fail [simp]:
  "predict_irrigation (scripted_env s (Inl e)) d w = (PredictionError (message e), w)"
  by (simp add: predict_irrigation_def predict_try_def)

lemma predict_scripted_write_fail [simp]:
  "predict_irrigation (scripted_env (Some e) (Inr c)) d w = (PredictionError (message e), w)"
  by (simp add: predict_irrigation_def predict_try_def)

lemma isoformat_clock0: "isoformat clock0 = ''2024-07-15T09:30:00''"
  by (simp add: isoformat_def clock0_def zero_pad_def dec.simps digit_def)

lemma tm_yday_clock0: "tm_yday clock0 = 197"
  by (simp add: tm_yday_def clock0_def days_in_month_def is_leap_def upt_conv_Cons)

lemma scripted_get_Cons [simp]: "db_get (scripted_env s r) path (x # xs) = (x, xs)"
  by (simp add: scripted_env_def scripted_get_def)

lemma scripted_now [simp]: "datetime_now (scripted_env s r) w = (clock0, w)"
  by (simp add: scripted_env_def)

lemma scripted_set [simp]: "db_set (scripted_env s r) path v w = (s, w)"
  by (simp add: scripted_env_def)

lemma scripted_sleep [simp]: "time_sleep (scripted_env s r) n w = w"
  by (simp add: scripted_env_def)

lemma read_snapshot_A [simp]: "read_SensorData env snapshot_A = Inr data_A"
  by (simp add: read_SensorData_def float_field_def snapshot_A_def data_A_def)

lemma read_snapshot_B [simp]: "read_SensorData env snapshot_B = Inr data_B"
  by (simp add: read_SensorData_def float_field_def snapshot_B_def data_B_def)

lemma complete_snapshot_A [simp]: "all_in required_fields snapshot_A = Inr True"
  by (simp add: required_fields_def snapshot_A_def)

lemma complete_snapshot_B [simp]: "all_in required_fields snapshot_B = Inr True"
  by (simp add: required_fields_def snapshot_B_def)

lemma snapshot_A_truthy [simp]: "py_truthy snapshot_A" "snapshot_A \<noteq> JNull"
  by (simp_all add: snapshot_A_def)

lemma snapshot_A_neq_B [simp]: "snapshot_A \<noteq> snapshot_B" "snapshot_B \<noteq> snapshot_A"
  by (auto simp: snapshot_A_def snapshot_B_def dest: fun_cong[of _ _ "''humidity''"])

section \<open>The claims\<close>

text \<open>
  C1, as amended. The two store writes are inside the same \<open>try\<close> as the classification, so
  when the classification has succeeded and one of the two writes raises, the handler of
  \<open>predict_irrigation\<close> turns that exception into the error result: the caller gets
  \<open>{"error": str(e)}\<close>, not the class and the timestamp.
\<close>

theorem predict_irrigation_write_failure:
  assumes "classify env data w = (Inr c, w1)"
    and "datetime_now env w1 = (now2, w2)"
    and "db_set env ''sensorData/prediction_class'' (JNum (of_int c)) w2 = (r1, w3)"
    and "db_set env ''sensorData/last_prediction_time'' (JStr (isoformat now2)) w3 = (r2, w4)"
    and "r1 = Some e \<or> (r1 = None \<and> r2 = Some e)"
  shows "fst (predict_irrigation env data w) = PredictionError (message e)"
  using assms
  by (auto simp: predict_irrigation_def predict_try_def save_prediction_def)

theorem predict_irrigation_write_failure_witness:
  "classify (scripted_env (Some store_down) (Inr 2)) data_A [] = (Inr 2, []) \<and>
   datetime_now (scripted_env (Some store_down) (Inr 2)) [] = (clock0, []) \<and>
   db_set (scripted_env (Some store_down) (Inr 2)) ''sensorData/prediction_class'' (JNum (of_int 2)) []
     = (Some store_down, []) \<and>
   fst (predict_irrigation (scripted_env (Some store_down) (Inr 2)) data_A [])
     = PredictionError (message store_down)"
proof -
  let ?env = "scripted_env (Some store_down) (Inr 2)"
  have h1: "classify ?env data_A [] = (Inr 2, [])" by simp
  have h2: "datetime_now ?env [] = (clock0, [])" by simp
  have h3: "db_set ?env ''sensorData/prediction_class'' (JNum (of_int 2)) [] = (Some store_down, [])"
    by simp
  have h4: "db_set ?env ''sensorData/last_prediction_time'' (JStr (isoformat clock0)) []
              = (Some store_down, [])"
    by simp
  have h5: "Some store_down = Some store_down \<or> (Some store_down = None \<and> Some store_down = Some store_down)"
    by simp
  from predict_irrigation_write_failure [OF h1 h2 h3 h4 h5] h1 h2 h3 show ?thesis by blast
qed

text \<open>
  C1 as stated fails: the classifier returns class 2, the first write raises, and the result
  is the error result.
\<close>

theorem write_failure_counterexample:
  "fst (classify (scripted_env (Some store_down) (Inr 2)) data_A []) = Inr 2 \<and>
   fst (db_set (scripted_env (Some store_down) (Inr 2)) ''sensorData/prediction_class'' (JNum 2) [])
     = Some store_down \<and>
   fst (predict_irrigation (scripted_env (Some store_down) (Inr 2)) data_A [])
     = PredictionError ''store unreachable''"
  by (simp add: scripted_env_def store_down_def predict_irrigation_def predict_try_def
        save_prediction_def classify_def)

text \<open>
  C2, the code at the failing input. Four reads fail, the fifth read succeeds and finds no
  node, the sixth fails. After the fifth iteration \<open>consecutive_errors\<close> is still 4: only the
  branch that runs the pipeline assigns 0 to it. The sixth iteration therefore counts a
  fifth error and leaves the loop.
\<close>

theorem counter_not_reset_by_successful_read:
  "monitor_firebase_sensor_data (scripted_env None (Inr 2)) 5 flaky_script =
     (Continue, \<lparr>last_values = None, consecutive_errors = 4\<rparr>, [Inl store_down],
      [MonitoringError 1 store_down, MonitoringError 2 store_down, MonitoringError 3 store_down,
       MonitoringError 4 store_down, CurrentSensorData JNull, NoSensorData]) \<and>
   monitor_firebase_sensor_data (scripted_env None (Inr 2)) 6 flaky_script =
     (Break, \<lparr>last_values = None, consecutive_errors = 5\<rparr>, [],
      [MonitoringError 1 store_down, MonitoringError 2 store_down, MonitoringError 3 store_down,
       MonitoringError 4 store_down, CurrentSensorData JNull, NoSensorData,
       MonitoringError 5 store_down, StoppingMonitor 5])"
  by (simp add: monitor_firebase_sensor_data_def flaky_script_def eval_nat_numeral
        monitor_iter_def monitor_try_def max_errors_def)

text \<open>
  C3, as amended. The trigger does not check that the three fields are present: each
  \<open>current_data.get(field, 0.0)\<close> puts 0.0 in the place of a missing field. For a node that
  is a non-empty dict whose present fields \<open>float\<close> accepts, the pipeline runs on the completed
  reading and the response has status \<open>success\<close> around the pipeline's result. The fields
  \<open>h\<close>, \<open>t\<close>, \<open>s\<close> are \<open>float\<close> of the value found, or of 0.0 when the key is missing.
\<close>

theorem trigger_prediction_defaults:
  assumes "db_get env ''sensorData/raw'' w = (Inr (JObj m), w1)"
    and "m \<noteq> Map.empty"
    and "py_float env (case m ''humidity'' of None \<Rightarrow> JNum 0 | Some v \<Rightarrow> v) = Inr h"
    and "py_float env (case m ''temperature'' of None \<Rightarrow> JNum 0 | Some v \<Rightarrow> v) = Inr t"
    and "py_float env (case m ''soilMoisture'' of None \<Rightarrow> JNum 0 | Some v \<Rightarrow> v) = Inr s"
  shows "trigger_prediction env w =
           (TriggerSuccess
              (fst (predict_irrigation env \<lparr>humidity = h, temperature = t, soilMoisture = s\<rparr> w1))
              (JObj m),
            snd (predict_irrigation env \<lparr>humidity = h, temperature = t, soilMoisture = s\<rparr> w1))"
  using assms
  by (simp add: trigger_prediction_def read_SensorData_def float_field_def split: prod.splits)

theorem trigger_prediction_defaults_witness:
  "py_in ''soilMoisture'' snapshot_no_soil = Inr False \<and>
   trigger_prediction (scripted_env None (Inr 2)) [Inr snapshot_no_soil] =
     (TriggerSuccess
        (fst (predict_irrigation (scripted_env None (Inr 2))
               \<lparr>humidity = 60, temperature = 30, soilMoisture = 0\<rparr> []))
        snapshot_no_soil,
      snd (predict_irrigation (scripted_env None (Inr 2))
             \<lparr>humidity = 60, temperature = 30, soilMoisture = 0\<rparr> []))"
proof -
  let ?env = "scripted_env None (Inr 2)"
  let ?m = "[''humidity'' \<mapsto> JNum 60, ''temperature'' \<mapsto> JNum 30]"
  have h1: "db_get ?env ''sensorData/raw'' [Inr (JObj ?m)] = (Inr (JObj ?m), [])"
    by (rule scripted_get_Cons)
  have h2: "?m \<noteq> Map.empty" by simp
  have h3: "py_float ?env (case ?m ''humidity'' of None \<Rightarrow> JNum 0 | Some v \<Rightarrow> v) = Inr 60"
    by simp
  have h4: "py_float ?env (case ?m ''temperature'' of None \<Rightarrow> JNum 0 | Some v \<Rightarrow> v) = Inr 30"
    by simp
  have h5: "py_float ?env (case ?m ''soilMoisture'' of None \<Rightarrow> JNum 0 | Some v \<Rightarrow> v) = Inr 0"
    by simp
  have h6: "py_in ''soilMoisture'' (JObj ?m) = Inr False"
    by simp
  show ?thesis
    unfolding snapshot_no_soil_def
    using trigger_prediction_defaults [OF h1 h2 h3 h4 h5] h6 by blast
qed

text \<open>
  C3 as stated fails: the node has no \<open>soilMoisture\<close>, and the trigger answers with status
  \<open>success\<close> and class 2, computed from a soil moisture of 0.0.
\<close>

theorem trigger_missing_field_counterexample:
  "py_in ''soilMoisture'' snapshot_no_soil = Inr False \<and>
   fst (trigger_prediction (scripted_env None (Inr 2)) [Inr snapshot_no_soil]) =
     TriggerSuccess (Prediction 2 ''2024-07-15T09:30:00'') snapshot_no_soil"
  by (simp add: trigger_prediction_def isoformat_clock0 snapshot_no_soil_def
        read_SensorData_def float_field_def)

text \<open>
  C4. A reading that differs from \<open>last_values\<close>, has the three fields and is coerced is
  handed to the pipeline; when the pipeline returns the error result, \<open>last_values\<close> still
  becomes that reading (and \<open>consecutive_errors\<close> 0). An iteration that then reads the
  same node again, in whatever world \<open>w'\<close>, prints that nothing changed and does not run
  the pipeline.
\<close>

theorem monitor_marks_failed_prediction_processed:
  assumes "db_get env ''sensorData'' w = (Inr current, w1)"
    and "last_values st \<noteq> Some current"
    and "all_in required_fields current = Inr True"
    and "read_SensorData env current = Inr data"
    and "predict_irrigation env data w1 = (PredictionError msg, w2)"
    and "db_get env ''sensorData'' w' = (Inr current, w1')"
  shows "monitor_iter env st w =
           (Continue, st\<lparr>last_values := Some current, consecutive_errors := 0\<rparr>,
            time_sleep env 5 w2,
            [CurrentSensorData current, DetectedChange (last_values st) current,
             PredictionResult (PredictionError msg)]) \<and>
         monitor_iter env (st\<lparr>last_values := Some current, consecutive_errors := 0\<rparr>) w' =
           (Continue, st\<lparr>last_values := Some current, consecutive_errors := 0\<rparr>,
            time_sleep env 5 w1', [CurrentSensorData current, NoChangeDetected])"
proof -
  have first: "monitor_iter env st w =
           (Continue, st\<lparr>last_values := Some current, consecutive_errors := 0\<rparr>,
            time_sleep env 5 w2,
            [CurrentSensorData current, DetectedChange (last_values st) current,
             PredictionResult (PredictionError msg)])"
    using monitor_iter_processed[OF assms(1-4)] assms(5) by simp
  have "py_truthy current" using complete_truthy(1)[OF assms(3,4)] .
  then have "monitor_iter env (st\<lparr>last_values := Some current, consecutive_errors := 0\<rparr>) w' =
           (Continue, st\<lparr>last_values := Some current, consecutive_errors := 0\<rparr>,
            time_sleep env 5 w1', [CurrentSensorData current, NoChangeDetected])"
    using monitor_iter_unchanged[OF assms(6)] by simp
  with first show ?thesis by simp
qed

theorem monitor_marks_failed_prediction_processed_witness:
  "monitor_firebase_sensor_data (scripted_env None (Inl model_failure)) 2
     [Inr snapshot_A, Inr snapshot_A] =
     (Continue, \<lparr>last_values = Some snapshot_A, consecutive_errors = 0\<rparr>, [],
      [CurrentSensorData snapshot_A, DetectedChange None snapshot_A,
       PredictionResult (PredictionError (message model_failure)),
       CurrentSensorData snapshot_A, NoChangeDetected])"
proof -
  let ?env = "scripted_env None (Inl model_failure)"
  let ?st = "\<lparr>last_values = None, consecutive_errors = 0\<rparr>"
  have h1: "db_get ?env ''sensorData'' [Inr snapshot_A, Inr snapshot_A] = (Inr snapshot_A, [Inr snapshot_A])"
    by simp
  have h2: "last_values ?st \<noteq> Some snapshot_A" by simp
  have h3: "all_in required_fields snapshot_A = Inr True" by simp
  have h4: "read_SensorData ?env snapshot_A = Inr data_A" by simp
  have h5: "predict_irrigation ?env data_A [Inr snapshot_A]
              = (PredictionError (message model_failure), [Inr snapshot_A])" by simp
  have h6: "db_get ?env ''sensorData'' [Inr snapshot_A] = (Inr snapshot_A, [])" by simp
  from monitor_marks_failed_prediction_processed [OF h1 h2 h3 h4 h5 h6] show ?thesis
    by (simp add: monitor_firebase_sensor_data_def numeral_2_eq_2)
qed

text \<open>
  C5. \<open>predict_irrigation\<close> is a total function into the two result shapes: its first
  component is either a class with the \<open>isoformat\<close> of a clock reading, or an error message.
  Whatever exception leaves the \<open>try\<close> body (encoders, scaler, classifier, store writes)
  becomes the error result with that exception's message.
\<close>

theorem predict_irrigation_total:
  "((\<exists>c now. fst (predict_irrigation env data w) = Prediction c (isoformat now)) \<or>
    (\<exists>msg. fst (predict_irrigation env data w) = PredictionError msg)) \<and>
   fst (predict_irrigation env data w) =
     (case fst (predict_try env data w) of
        Inl e \<Rightarrow> PredictionError (message e)
      | Inr (c, ts) \<Rightarrow> Prediction c ts)"
proof -
  have shape: "fst (predict_irrigation env data w) =
     (case fst (predict_try env data w) of
        Inl e \<Rightarrow> PredictionError (message e)
      | Inr (c, ts) \<Rightarrow> Prediction c ts)"
    by (simp add: predict_irrigation_def split: prod.splits sum.splits)
  have ts: "\<exists>now. ts = isoformat now" if "fst (save_prediction env c w1) = Inr (c', ts)" for c c' w1 ts
    using that by (auto simp: save_prediction_def split: prod.splits option.splits)
  have "\<exists>now. ts = isoformat now" if "fst (predict_try env data w) = Inr (c, ts)" for c ts
    using that ts by (auto simp: predict_try_def split: prod.splits sum.splits)
  with shape show ?thesis
    by (cases "fst (predict_try env data w)") auto
qed

text \<open>
  C6, the code at the failing input. The first reading is processed, which sets the counter
  to 0. Four reads fail, the sixth read succeeds and returns the reading already
  processed, the seventh fails. The successful sixth read takes the branch that prints
  that nothing changed and leaves \<open>consecutive_errors\<close> at 4, so the seventh iteration counts
  a fifth error and leaves the loop, although no more than four reads in a row have failed
  and a successful read lies between the fourth and the fifth failure.
\<close>

theorem monitor_stops_after_interrupted_failures:
  "monitor_firebase_sensor_data (scripted_env None (Inr 2)) 6 interrupted_script =
     (Continue, \<lparr>last_values = Some snapshot_A, consecutive_errors = 4\<rparr>, [Inl store_down],
      [CurrentSensorData snapshot_A, DetectedChange None snapshot_A,
       PredictionResult (Prediction 2 ''2024-07-15T09:30:00''),
       MonitoringError 1 store_down, MonitoringError 2 store_down, MonitoringError 3 store_down,
       MonitoringError 4 store_down, CurrentSensorData snapshot_A, NoChangeDetected]) \<and>
   monitor_firebase_sensor_data (scripted_env None (Inr 2)) 7 interrupted_script =
     (Break, \<lparr>last_values = Some snapshot_A, consecutive_errors = 5\<rparr>, [],
      [CurrentSensorData snapshot_A, DetectedChange None snapshot_A,
       PredictionResult (Prediction 2 ''2024-07-15T09:30:00''),
       MonitoringError 1 store_down, MonitoringError 2 store_down, MonitoringError 3 store_down,
       MonitoringError 4 store_down, CurrentSensorData snapshot_A, NoChangeDetected,
       MonitoringError 5 store_down, StoppingMonitor 5])"
  by (simp add: monitor_firebase_sensor_data_def interrupted_script_def eval_nat_numeral
        monitor_iter_def monitor_try_def max_errors_def isoformat_clock0)

text \<open>
  C7. For a reading \<open>s1\<close> that has the three fields and is coerced: when it equals
  \<open>last_values\<close> the iteration prints that nothing changed and leaves the state and the world
  (but for the read and the sleep) as they are; when \<open>last_values\<close> is unset or differs, the
  pipeline runs on it. From the initial state, over two iterations that read \<open>s1\<close> and then
  \<open>s2\<close>, the pipeline runs once when \<open>s2 = s1\<close> and twice otherwise.
\<close>

theorem change_detection:
  assumes "db_get env ''sensorData'' w = (Inr s1, w1)"
    and "all_in required_fields s1 = Inr True"
    and "read_SensorData env s1 = Inr d1"
    and "db_get env ''sensorData'' (time_sleep env 5 (snd (predict_irrigation env d1 w1))) = (Inr s2, w2)"
    and "all_in required_fields s2 = Inr True"
    and "read_SensorData env s2 = Inr d2"
  shows "monitor_iter env st w =
           (if last_values st = Some s1
            then (Continue, st, time_sleep env 5 w1, [CurrentSensorData s1, NoChangeDetected])
            else (Continue, st\<lparr>last_values := Some s1, consecutive_errors := 0\<rparr>,
                  time_sleep env 5 (snd (predict_irrigation env d1 w1)),
                  [CurrentSensorData s1, DetectedChange (last_values st) s1,
                   PredictionResult (fst (predict_irrigation env d1 w1))])) \<and>
         pipeline_calls (snd (snd (snd (monitor_firebase_sensor_data env 2 w)))) =
           (if s2 = s1 then 1 else 2)"
proof -
  let ?st0 = "\<lparr>last_values = None, consecutive_errors = 0\<rparr>"
  let ?st1 = "\<lparr>last_values = Some s1, consecutive_errors = 0\<rparr>"
  let ?w' = "time_sleep env 5 (snd (predict_irrigation env d1 w1))"
  have step: "monitor_iter env st w =
           (if last_values st = Some s1
            then (Continue, st, time_sleep env 5 w1, [CurrentSensorData s1, NoChangeDetected])
            else (Continue, st\<lparr>last_values := Some s1, consecutive_errors := 0\<rparr>,
                  time_sleep env 5 (snd (predict_irrigation env d1 w1)),
                  [CurrentSensorData s1, DetectedChange (last_values st) s1,
                   PredictionResult (fst (predict_irrigation env d1 w1))]))" for st
  proof (cases "last_values st = Some s1")
    case True
    with monitor_iter_unchanged[OF assms(1) True complete_truthy(1)[OF assms(2,3)]]
    show ?thesis by simp
  next
    case False
    with monitor_iter_processed[OF assms(1) False assms(2,3)] show ?thesis by simp
  qed
  have it1: "monitor_iter env ?st0 w =
      (Continue, ?st1, ?w',
       [CurrentSensorData s1, DetectedChange None s1,
        PredictionResult (fst (predict_irrigation env d1 w1))])"
    using step[of ?st0] by simp
  have it2: "monitor_iter env ?st1 ?w' =
      (if s2 = s1
       then (Continue, ?st1, time_sleep env 5 w2, [CurrentSensorData s2, NoChangeDetected])
       else (Continue, \<lparr>last_values = Some s2, consecutive_errors = 0\<rparr>,
             time_sleep env 5 (snd (predict_irrigation env d2 w2)),
             [CurrentSensorData s2, DetectedChange (Some s1) s2,
              PredictionResult (fst (predict_irrigation env d2 w2))]))"
  proof (cases "s2 = s1")
    case True
    with monitor_iter_unchanged[OF assms(4), of ?st1] complete_truthy(1)[OF assms(5,6)]
    show ?thesis by simp
  next
    case False
    then have "last_values ?st1 \<noteq> Some s2" by simp
    from monitor_iter_processed[OF assms(4) this assms(5,6)] False show ?thesis by simp
  qed
  have "pipeline_calls (snd (snd (snd (monitor_firebase_sensor_data env 2 w)))) =
           (if s2 = s1 then 1 else 2)"
    by (simp add: monitor_firebase_sensor_data_def numeral_2_eq_2 it1 it2 pipeline_calls_def)
  with step[of st] show ?thesis by simp
qed

theorem change_detection_witness:
  "pipeline_calls (snd (snd (snd (monitor_firebase_sensor_data (scripted_env None (Inr 2)) 2
      [Inr snapshot_A, Inr snapshot_A])))) = 1 \<and>
   pipeline_calls (snd (snd (snd (monitor_firebase_sensor_data (scripted_env None (Inr 2)) 2
      [Inr snapshot_A, Inr snapshot_B])))) = 2"
proof -
  let ?env = "scripted_env None (Inr 2)"
  have a1: "db_get ?env ''sensorData'' [Inr snapshot_A, Inr snapshot_A] = (Inr snapshot_A, [Inr snapshot_A])"
    by simp
  have b1: "db_get ?env ''sensorData'' [Inr snapshot_A, Inr snapshot_B] = (Inr snapshot_A, [Inr snapshot_B])"
    by simp
  have c: "all_in required_fields snapshot_A = Inr True" "read_SensorData ?env snapshot_A = Inr data_A"
    "all_in required_fields snapshot_B = Inr True" "read_SensorData ?env snapshot_B = Inr data_B"
    by simp_all
  have a2: "db_get ?env ''sensorData''
              (time_sleep ?env 5 (snd (predict_irrigation ?env data_A [Inr snapshot_A]))) = (Inr snapshot_A, [])"
    by simp
  have b2: "db_get ?env ''sensorData''
              (time_sleep ?env 5 (snd (predict_irrigation ?env data_A [Inr snapshot_B]))) = (Inr snapshot_B, [])"
    by simp
  from change_detection [OF a1 c(1,2) a2 c(1,2)] change_detection [OF b1 c(1,2) b2 c(3,4)]
  show ?thesis by simp
qed

text \<open>
  C8. The two stress flags, as functions of the reading, on the two readings of the
  scenario, and at their places in the feature vector.
\<close>

theorem stress_flags:
  "heat_stress data = (if temperature data > 35 \<and> humidity data < 50 then 1 else 0) \<and>
   drought_stress data = (if soilMoisture data < 30 \<and> (0.5::real) < 1 then 1 else 0) \<and>
   rainfall_mm_prediction_next_1h = 0.5 \<and>
   heat_stress \<lparr>humidity = 60, temperature = 30, soilMoisture = 45\<rparr> = 0 \<and>
   drought_stress \<lparr>humidity = 60, temperature = 30, soilMoisture = 45\<rparr> = 0 \<and>
   heat_stress \<lparr>humidity = 40, temperature = 38, soilMoisture = 20\<rparr> = 1 \<and>
   drought_stress \<lparr>humidity = 40, temperature = 38, soilMoisture = 20\<rparr> = 1 \<and>
   feature_vector data now d z s ! 10 = of_int (heat_stress data) \<and>
   feature_vector data now d z s ! 11 = of_int (drought_stress data)"
  by (simp add: heat_stress_def drought_stress_def rainfall_mm_prediction_next_1h_def
        feature_vector_def)

text \<open>
  C9. The row has fourteen entries in the order soil moisture, temperature, humidity,
  the rainfall constant, hour, day of the year, month, the codes of district, zone and
  season, heat stress, drought stress, soil moisture times temperature, humidity times the
  rainfall constant; and this row is what the scaler is applied to.
\<close>

theorem feature_vector_order:
  assumes "datetime_now env w = (now, w1)"
    and "le_district env ''Coimbatore'' = Inr district_enc"
    and "le_zone env ''Western Zone'' = Inr zone_enc"
    and "le_season env ''southwest_monsoon'' = Inr season_enc"
  shows "length (feature_vector data now district_enc zone_enc season_enc) = 14 \<and>
         feature_vector data now district_enc zone_enc season_enc =
           [soilMoisture data, temperature data, humidity data, 0.5,
            real (hour now), real (tm_yday now), real (month now),
            of_int district_enc, of_int zone_enc, of_int season_enc,
            of_int (heat_stress data), of_int (drought_stress data),
            soilMoisture data * temperature data, humidity data * 0.5] \<and>
         classify env data w =
           (case scaler_transform env
                   [soilMoisture data, temperature data, humidity data, 0.5,
                    real (hour now), real (tm_yday now), real (month now),
                    of_int district_enc, of_int zone_enc, of_int season_enc,
                    of_int (heat_stress data), of_int (drought_stress data),
                    soilMoisture data * temperature data, humidity data * 0.5] of
              Inl e \<Rightarrow> (Inl e, w1)
            | Inr scaled_input \<Rightarrow> (model_predict env scaled_input, w1))"
proof -
  have fv: "feature_vector data now district_enc zone_enc season_enc =
           [soilMoisture data, temperature data, humidity data, 0.5,
            real (hour now), real (tm_yday now), real (month now),
            of_int district_enc, of_int zone_enc, of_int season_enc,
            of_int (heat_stress data), of_int (drought_stress data),
            soilMoisture data * temperature data, humidity data * 0.5]"
    by (simp add: feature_vector_def rainfall_mm_prediction_next_1h_def
          soil_temp_interaction_def humidity_rain_interaction_def)
  have len: "length (feature_vector data now district_enc zone_enc season_enc) = 14"
    by (simp add: feature_vector_def)
  have "classify env data w =
           (case scaler_transform env (feature_vector data now district_enc zone_enc season_enc) of
              Inl e \<Rightarrow> (Inl e, w1)
            | Inr scaled_input \<Rightarrow> (model_predict env scaled_input, w1))"
    using assms by (simp add: classify_def split: sum.splits)
  with fv len show ?thesis by simp
qed

theorem feature_vector_order_witness:
  "feature_vector data_B clock0 3 1 2 =
     [20, 38, 40, 0.5, 9, 197, 7, 3, 1, 2, 1, 1, 760, 20] \<and>
   classify (scripted_env None (Inr 2)) data_B [] = (Inr 2, [])"
proof -
  let ?env = "scripted_env None (Inr 2)"
  have h1: "datetime_now ?env [] = (clock0, [])" by simp
  have h2: "le_district ?env ''Coimbatore'' = Inr 3" by (simp add: scripted_env_def)
  have h3: "le_zone ?env ''Western Zone'' = Inr 1" by (simp add: scripted_env_def)
  have h4: "le_season ?env ''southwest_monsoon'' = Inr 2" by (simp add: scripted_env_def)
  have h5: "hour clock0 = 9" "month clock0 = 7" by (simp_all add: clock0_def)
  from feature_vector_order [OF h1 h2 h3 h4, of data_B] show ?thesis
    by (simp add: data_B_def tm_yday_clock0 h5 heat_stress_def drought_stress_def
          rainfall_mm_prediction_next_1h_def)
qed

text \<open>
  C10. \<open>last_values\<close> is unset or a dict with the three required fields: in the initial
  state, after every iteration that starts in such a state, and so after any number of
  iterations of the loop.
\<close>

theorem last_values_invariant:
  "monitor_inv \<lparr>last_values = None, consecutive_errors = 0\<rparr> \<and>
   (monitor_inv st \<longrightarrow> monitor_inv (fst (snd (monitor_iter env st w)))) \<and>
   monitor_inv (fst (snd (monitor_firebase_sensor_data env n w)))"
proof -
  have init: "monitor_inv \<lparr>last_values = None, consecutive_errors = 0\<rparr>"
    by (simp add: monitor_inv_def)
  have step: "monitor_inv st \<longrightarrow> monitor_inv (fst (snd (monitor_iter env st w)))"
    using monitor_iter_inv[of st env w] by (cases "monitor_iter env st w") auto
  have "monitor_inv (fst (snd (monitor_firebase_sensor_data env n w)))"
    using monitor_loop_inv[OF init, of env n w]
    by (cases "monitor_loop env n \<lparr>last_values = None, consecutive_errors = 0\<rparr> w")
       (auto simp: monitor_firebase_sensor_data_def)
  with init step show ?thesis by simp
qed

theorem last_values_invariant_witness:
  "monitor_inv \<lparr>last_values = None, consecutive_errors = 0\<rparr> \<and>
   last_values (fst (snd (monitor_iter (scripted_env None (Inr 2))
      \<lparr>last_values = None, consecutive_errors = 0\<rparr> [Inr snapshot_A]))) = Some snapshot_A \<and>
   monitor_inv (fst (snd (monitor_iter (scripted_env None (Inr 2))
      \<lparr>last_values = None, consecutive_errors = 0\<rparr> [Inr snapshot_A])))"
proof -
  let ?env = "scripted_env None (Inr 2)"
  let ?st = "\<lparr>last_values = None, consecutive_errors = 0\<rparr>"
  have h: "monitor_inv ?st" by (simp add: monitor_inv_def)
  have it: "last_values (fst (snd (monitor_iter ?env ?st [Inr snapshot_A]))) = Some snapshot_A"
    using monitor_iter_processed[of ?env "[Inr snapshot_A]" snapshot_A "[]" ?st data_A] by simp
  from last_values_invariant [of ?st ?env "[Inr snapshot_A]"] h it show ?thesis by blast
qed

end
